theory Spec2Isabelle
  imports Main "HOL-Library.AList" "HOL-Library.Sublist" "HOL-Library.Char_ord"
    "HOL-Library.List_Lexorder"
begin

section \<open>Strings: the Python built-ins the server relies on\<close>

text \<open>
  A Python \<open>str\<close> is a sequence of code points; the model keeps the code points below 256,
  one \<^typ>\<open>char\<close> each. \<open>is_space\<close> is \<open>str.isspace\<close> on that range, the separator set of
  \<open>str.split()\<close> and \<open>str.strip()\<close> when they are called without an argument.
\<close>

definition is_space :: "char \<Rightarrow> bool" where
  "is_space c = (of_char c \<in> {9, 10, 11, 12, 13, 28, 29, 30, 31, 32, 133, 160 :: nat})"

text \<open>\<open>s.strip()\<close>: drop the leading and the trailing run of whitespace.\<close>

definition strip :: "string \<Rightarrow> string" where
  "strip s = rev (dropWhile is_space (rev (dropWhile is_space s)))"

text \<open>
  \<open>s.split()\<close>: the maximal runs of non-whitespace characters, in order. \<open>cur\<close> is the run
  being read.
\<close>

fun split_from :: "string \<Rightarrow> string \<Rightarrow> string list" where
  "split_from cur [] = (if cur = [] then [] else [cur])"
| "split_from cur (c # cs) =
     (if is_space c
      then (if cur = [] then split_from [] cs else cur # split_from [] cs)
      else split_from (cur @ [c]) cs)"

definition split :: "string \<Rightarrow> string list" where
  "split s = split_from [] s"

text \<open>\<open>sep.join(parts)\<close>.\<close>

fun join :: "string \<Rightarrow> string list \<Rightarrow> string" where
  "join sep [] = []"
| "join sep [p] = p"
| "join sep (p # q # ps) = p @ sep @ join sep (q # ps)"

text \<open>\<open>s.startswith('/')\<close>.\<close>

definition startswith_slash :: "string \<Rightarrow> bool" where
  "startswith_slash s = (case s of [] \<Rightarrow> False | c # _ \<Rightarrow> c = CHR ''/'')"

text \<open>\<open>sub in s\<close> on strings: \<open>sub\<close> occurs in \<open>s\<close> as a contiguous block.\<close>

definition contains :: "string \<Rightarrow> string \<Rightarrow> bool" where
  "contains s sub = sublist sub s"

section \<open>The server state\<close>

text \<open>
  A socket object is identified by a number. \<open>users\<close> and \<open>addresses\<close> are the two
  dictionaries of \<open>ChatServer\<close>, kept as association lists in insertion order, which is
  the order Python iterates a \<open>dict\<close> in. The world outside the process is part of the
  state: \<open>outbox\<close> lists, in order, every \<open>(socket, text)\<close> that a \<open>client.send\<close> call
  handed over without raising, \<open>dead\<close> holds the sockets whose peer is gone (a send on
  them raises), and \<open>closed\<close> the sockets the server has called \<open>close()\<close> on.
\<close>

type_synonym sock = nat
type_synonym address = "string \<times> nat"

record server =
  users :: "(sock \<times> string) list"
  addresses :: "(sock \<times> address) list"
  running :: bool
  outbox :: "(sock \<times> string) list"
  dead :: "sock set"
  closed :: "sock set"

text \<open>What one \<open>client.recv(2048).decode("utf8")\<close> produces: a text (empty when the peer
  has closed the connection) or an exception.\<close>

datatype recv_result = Recv string | RecvError

text \<open>How a worker's run over a finite list of incoming frames ends: it returned, or it is
  still blocked in \<open>recv\<close> because no further frame has arrived.\<close>

datatype outcome = Returned | Blocked

section \<open>Sending\<close>

text \<open>
  \<open>_send_message\<close>: the send is tried and any exception is logged and swallowed, so the caller
  always continues. A send raises on a socket whose peer is gone or which the server has
  closed.
\<close>

definition can_send :: "server \<Rightarrow> sock \<Rightarrow> bool" where
  "can_send s client = (client \<notin> dead s \<and> client \<notin> closed s)"

definition send_message :: "server \<Rightarrow> sock \<Rightarrow> string \<Rightarrow> server" where
  "send_message s client message =
     (if can_send s client then s\<lparr>outbox := outbox s @ [(client, message)]\<rparr> else s)"

text \<open>The loop of \<open>broadcast\<close> over the snapshot \<open>list(self.users.keys())\<close>.\<close>

fun broadcast_loop :: "server \<Rightarrow> sock list \<Rightarrow> string \<Rightarrow> sock option \<Rightarrow> server" where
  "broadcast_loop s [] message exclude = s"
| "broadcast_loop s (client # rest) message exclude =
     (if Some client \<noteq> exclude
      then broadcast_loop (send_message s client message) rest message exclude
      else broadcast_loop s rest message exclude)"

definition broadcast :: "server \<Rightarrow> string \<Rightarrow> sock option \<Rightarrow> server" where
  "broadcast s message exclude = broadcast_loop s (map fst (users s)) message exclude"

section \<open>The registry\<close>

text \<open>\<open>_remove_client\<close>: both deletions are guarded by a membership test, and \<open>close()\<close> is
  called in any case (an exception from it is swallowed).\<close>

definition remove_client :: "server \<Rightarrow> sock \<Rightarrow> server" where
  "remove_client s client =
     (let s1 = (if client \<in> fst ` set (users s)
                then s\<lparr>users := AList.delete client (users s)\<rparr> else s);
          s2 = (if client \<in> fst ` set (addresses s1)
                then s1\<lparr>addresses := AList.delete client (addresses s1)\<rparr> else s1)
      in s2\<lparr>closed := insert client (closed s2)\<rparr>)"

text \<open>The assignment \<open>self.users[client] = username\<close> of \<open>_handle_client\<close>.\<close>

definition set_user :: "server \<Rightarrow> sock \<Rightarrow> string \<Rightarrow> server" where
  "set_user s client username = s\<lparr>users := AList.update client username (users s)\<rparr>"

text \<open>
  \<open>_get_username\<close>, run over the frames that arrive: each round sends the prompt and reads
  one frame. The result is \<open>Inr name\<close> when the loop returns, \<open>Inl Returned\<close> when \<open>recv\<close>
  raises (the exception leaves the function), and \<open>Inl Blocked\<close> when the frames run out
  while the loop is still asking.
\<close>

fun get_username :: "server \<Rightarrow> sock \<Rightarrow> recv_result list \<Rightarrow> (outcome + string) \<times> server \<times> recv_result list" where
  "get_username s client [] = (Inl Blocked, send_message s client ''Enter your username:'', [])"
| "get_username s client (RecvError # rest) =
     (Inl Returned, send_message s client ''Enter your username:'', rest)"
| "get_username s client (Recv raw # rest) =
     (let s1 = send_message s client ''Enter your username:'';
          username = strip raw
      in if username \<noteq> [] \<and> username \<notin> snd ` set (users s1)
         then (Inr username, s1, rest)
         else get_username
                (send_message s1 client ''Username already taken or invalid. Try again.'')
                client rest)"

section \<open>Commands\<close>

text \<open>\<open>_handle_quit\<close>.\<close>

definition handle_quit :: "server \<Rightarrow> sock \<Rightarrow> string \<Rightarrow> server" where
  "handle_quit s client username =
     broadcast (remove_client (send_message s client ''Goodbye!'') client)
       (username @ '' has left the chat.'') None"

text \<open>\<open>_show_online_users\<close>: the names sorted by code point and joined.\<close>

definition show_online_users :: "server \<Rightarrow> sock \<Rightarrow> server" where
  "show_online_users s client =
     send_message s client (''Users online: '' @ join '', '' (sort (map snd (users s))))"

definition help_text :: string where
  "help_text =
     [CHR 0x0A] @ ''Available commands:'' @
     [CHR 0x0A] @ ''/help - Show this help message'' @
     [CHR 0x0A] @ ''/online - Show online users'' @
     [CHR 0x0A] @ ''/quit - Leave the chat'' @
     [CHR 0x0A] @ ''/whisper <username> <message> - Send private message'' @
     [CHR 0x0A] @ ''        ''"

definition show_help :: "server \<Rightarrow> sock \<Rightarrow> server" where
  "show_help s client = send_message s client help_text"

text \<open>The generator expression of \<open>_handle_whisper\<close>: the first socket, in dictionary order,
  registered under exactly the name \<open>recipient\<close>.\<close>

fun find_recipient :: "(sock \<times> string) list \<Rightarrow> string \<Rightarrow> sock option" where
  "find_recipient [] recipient = None"
| "find_recipient ((sock, name) # rest) recipient =
     (if name = recipient then Some sock else find_recipient rest recipient)"

text \<open>
  \<open>_handle_whisper\<close>. The unpacking \<open>_, recipient, *message_parts = command.split()\<close> raises
  \<open>ValueError\<close> exactly when the split has fewer than two items; that is the only path to
  the usage reply. A socket object is always true, so \<open>if recipient_socket\<close> tests for
  \<open>None\<close> only.
\<close>

definition handle_whisper :: "server \<Rightarrow> sock \<Rightarrow> string \<Rightarrow> string \<Rightarrow> server" where
  "handle_whisper s client command sender =
     (case split command of
        _ # recipient # message_parts \<Rightarrow>
          (let message = join '' '' message_parts
           in case find_recipient (users s) recipient of
                Some recipient_socket \<Rightarrow>
                  send_message
                    (send_message s recipient_socket
                       (''[PM from '' @ sender @ ''] '' @ message))
                    client (''[PM to '' @ recipient @ ''] '' @ message)
              | None \<Rightarrow>
                  send_message s client (''User '' @ recipient @ '' is not online.''))
      | _ \<Rightarrow> send_message s client ''Usage: /whisper <username> <message>'')"

text \<open>
  \<open>_handle_command\<close>: the dictionary of handlers is looked up with the first item of
  \<open>command.split()\<close> as it stands. \<open>command.split()[0]\<close> raises \<open>IndexError\<close> on a text
  without any non-whitespace character; the exception leaves the function (\<open>None\<close>).
\<close>

datatype handler = Quit | Online | Help | Whisper

definition commands :: "(string \<times> handler) list" where
  "commands = [(''/quit'', Quit), (''/online'', Online), (''/help'', Help), (''/whisper'', Whisper)]"

definition run_handler :: "handler \<Rightarrow> server \<Rightarrow> sock \<Rightarrow> string \<Rightarrow> string \<Rightarrow> server" where
  "run_handler h s client command username =
     (case h of
        Quit \<Rightarrow> handle_quit s client username
      | Online \<Rightarrow> show_online_users s client
      | Help \<Rightarrow> show_help s client
      | Whisper \<Rightarrow> handle_whisper s client command username)"

definition handle_command :: "server \<Rightarrow> sock \<Rightarrow> string \<Rightarrow> string \<Rightarrow> server option" where
  "handle_command s client command username =
     (case split command of
        [] \<Rightarrow> None
      | cmd # _ \<Rightarrow>
          (case map_of commands cmd of
             Some h \<Rightarrow> Some (run_handler h s client command username)
           | None \<Rightarrow>
               Some (send_message s client
                  ''Unknown command. Type /help for available commands.'')))"

section \<open>The per-connection worker\<close>

text \<open>
  One round of the loop of \<open>_process_client_messages\<close> on the frame that \<open>recv\<close> produced;
  \<open>timestamp\<close> is what \<open>datetime.now().strftime("%H:%M:%S")\<close> reads in that round. The
  Boolean tells whether the loop goes on: an empty frame and any exception break it.
\<close>

definition process_message :: "server \<Rightarrow> sock \<Rightarrow> string \<Rightarrow> string \<Rightarrow> recv_result \<Rightarrow> bool \<times> server" where
  "process_message s client username timestamp r =
     (case r of
        RecvError \<Rightarrow> (False, s)
      | Recv message \<Rightarrow>
          if client \<in> closed s then (False, s)
          else if message = [] then (False, s)
          else if startswith_slash message
          then (case handle_command s client message username of
                  None \<Rightarrow> (False, s)
                | Some s' \<Rightarrow> (True, s'))
          else (True, broadcast s
                  (''['' @ timestamp @ ''] '' @ username @ '': '' @ message) None))"

text \<open>
  \<open>_process_client_messages\<close> over the frames that arrive, each with the clock reading of its
  round. \<open>recv\<close> on a socket the server has closed raises at once, whatever the peer sent.
\<close>

fun process_client_messages :: "server \<Rightarrow> sock \<Rightarrow> string \<Rightarrow> (string \<times> recv_result) list \<Rightarrow> outcome \<times> server" where
  "process_client_messages s client username [] =
     (if \<not> running s then (Returned, s)
      else if client \<in> closed s then (Returned, s)
      else (Blocked, s))"
| "process_client_messages s client username ((timestamp, r) # rest) =
     (if \<not> running s then (Returned, s)
      else case process_message s client username timestamp r of
             (True, s') \<Rightarrow> process_client_messages s' client username rest
           | (False, s') \<Rightarrow> (Returned, s'))"

text \<open>
  \<open>_handle_client\<close>. \<open>self.addresses[client]\<close> is read before the \<open>try\<close>, so a missing entry
  ends the worker with nothing done. \<open>names\<close> are the frames read during the negotiation,
  \<open>frames\<close> those read afterwards. The \<open>finally\<close> clause runs whenever the body returns
  or raises; a worker blocked in \<open>recv\<close> has not reached it.
\<close>

definition handle_client :: "server \<Rightarrow> sock \<Rightarrow> recv_result list \<Rightarrow> (string \<times> recv_result) list \<Rightarrow> outcome \<times> server" where
  "handle_client s client names frames =
     (if client \<notin> fst ` set (addresses s) then (Returned, s)
      else case get_username s client names of
             (Inl Blocked, s1, _) \<Rightarrow> (Blocked, s1)
           | (Inl Returned, s1, _) \<Rightarrow> (Returned, remove_client s1 client)
           | (Inr username, s1, _) \<Rightarrow>
               (let s2 = set_user s1 client username;
                    s3 = send_message s2 client
                           (''Welcome '' @ username @ ''! Type /help for commands.'');
                    s4 = broadcast s3 (username @ '' has joined the chat!'') None
                in case process_client_messages s4 client username frames of
                     (Blocked, s5) \<Rightarrow> (Blocked, s5)
                   | (Returned, s5) \<Rightarrow> (Returned, remove_client s5 client)))"

section \<open>The client's receive path\<close>

text \<open>The classification in \<open>_receive_messages\<close> of \<open>client.py\<close>.\<close>

definition msg_type :: "string \<Rightarrow> string" where
  "msg_type message = (if contains message ''whispered to you:'' then ''private'' else ''normal'')"

section \<open>Example states\<close>

text \<open>Three registered clients, as in the scenario of the specification.\<close>

definition three_clients :: server where
  "three_clients =
     \<lparr>users = [(1, ''alice''), (2, ''bob''), (3, ''carol'')],
      addresses = [(1, (''10.0.0.1'', 50001)), (2, (''10.0.0.2'', 50002)),
                   (3, (''10.0.0.3'', 50003))],
      running = True, outbox = [], dead = {}, closed = {}\<rparr>"

text \<open>The same server before the third connection has chosen a name: it is accepted (its
  address is recorded) and not yet registered.\<close>

definition carol_accepted :: server where
  "carol_accepted = three_clients\<lparr>users := [(1, ''alice''), (2, ''bob'')]\<rparr>"

text \<open>Two accepted connections and nobody registered.\<close>

definition two_accepted :: server where
  "two_accepted =
     \<lparr>users = [],
      addresses = [(1, (''10.0.0.1'', 50001)), (2, (''10.0.0.2'', 50002))],
      running = True, outbox = [], dead = {}, closed = {}\<rparr>"

text \<open>Three registered clients, the second of which has gone away.\<close>

definition bob_gone :: server where
  "bob_gone = three_clients\<lparr>dead := {2}\<rparr>"

section \<open>What a send changes\<close>

lemma send_message_users [simp]: "users (send_message s c m) = users s"
  and send_message_addresses [simp]: "addresses (send_message s c m) = addresses s"
  and send_message_running [simp]: "running (send_message s c m) = running s"
  and send_message_dead [simp]: "dead (send_message s c m) = dead s"
  and send_message_closed [simp]: "closed (send_message s c m) = closed s"
  by (simp_all add: send_message_def)

lemma can_send_send_message [simp]: "can_send (send_message s c m) d = can_send s d"
  by (simp add: can_send_def)

lemma outbox_send_message:
  "outbox (send_message s c m) = outbox s @ (if can_send s c then [(c, m)] else [])"
  by (simp add: send_message_def)

lemma broadcast_loop_users [simp]: "users (broadcast_loop s cs m ex) = users s"
  and broadcast_loop_addresses [simp]: "addresses (broadcast_loop s cs m ex) = addresses s"
  and broadcast_loop_running [simp]: "running (broadcast_loop s cs m ex) = running s"
  and broadcast_loop_dead [simp]: "dead (broadcast_loop s cs m ex) = dead s"
  and broadcast_loop_closed [simp]: "closed (broadcast_loop s cs m ex) = closed s"
  by (induction s cs m ex rule: broadcast_loop.induct; simp)+

lemma outbox_broadcast_loop:
  "outbox (broadcast_loop s cs m ex) =
     outbox s @ map (\<lambda>c. (c, m)) (filter (\<lambda>c. Some c \<noteq> ex \<and> can_send s c) cs)"
  by (induction s cs m ex rule: broadcast_loop.induct) (simp_all add: outbox_send_message)

lemma outbox_broadcast:
  "outbox (broadcast s m ex) =
     outbox s @ map (\<lambda>c. (c, m)) (filter (\<lambda>c. Some c \<noteq> ex \<and> can_send s c) (map fst (users s)))"
  by (simp add: broadcast_def outbox_broadcast_loop)

lemma broadcast_users [simp]: "users (broadcast s m ex) = users s"
  and broadcast_addresses [simp]: "addresses (broadcast s m ex) = addresses s"
  and broadcast_running [simp]: "running (broadcast s m ex) = running s"
  and broadcast_dead [simp]: "dead (broadcast s m ex) = dead s"
  and broadcast_closed [simp]: "closed (broadcast s m ex) = closed s"
  by (simp_all add: broadcast_def)

lemma remove_client_eq:
  "remove_client s c =
     s\<lparr>users := AList.delete c (users s), addresses := AList.delete c (addresses s),
       closed := insert c (closed s)\<rparr>"
  by (simp add: remove_client_def Let_def)

section \<open>Broadcast\<close>

text \<open>
  C8. For every text and every optional excluded connection, \<open>broadcast\<close> hands the text, in
  registry order, to every connection registered at call time except the excluded one. A
  recipient whose send raises is skipped (its exception is swallowed by \<open>_send_message\<close>)
  and every later recipient is still served; the registry itself is left as it was.
\<close>

theorem broadcast_delivers:
  "outbox (broadcast s text exclude) =
     outbox s @ map (\<lambda>c. (c, text))
                  (filter (\<lambda>c. Some c \<noteq> exclude \<and> can_send s c) (map fst (users s)))
   \<and> users (broadcast s text exclude) = users s"
  by (simp add: broadcast_def outbox_broadcast_loop)

theorem broadcast_delivers_witness:
  "outbox (broadcast bob_gone ''hi'' (Some 1)) = [(3, ''hi'')]
   \<and> outbox (broadcast bob_gone ''hi'' None) = [(1, ''hi''), (3, ''hi'')]"
  using broadcast_delivers [of bob_gone "''hi''" "Some 1"]
    broadcast_delivers [of bob_gone "''hi''" None]
  by (simp add: bob_gone_def three_clients_def can_send_def)

section \<open>Unregistering\<close>

text \<open>
  C7. \<open>_remove_client\<close> is idempotent: running it twice on the same connection leaves the
  server in the same state as running it once, and on a connection that is in neither
  dictionary it leaves the registry and the address map unchanged.
\<close>

theorem remove_client_idempotent:
  "remove_client (remove_client s client) client = remove_client s client
   \<and> (client \<notin> fst ` set (users s) \<and> client \<notin> fst ` set (addresses s) \<longrightarrow>
        users (remove_client s client) = users s
        \<and> addresses (remove_client s client) = addresses s)"
  by (simp add: remove_client_eq AList.delete_idem)

theorem remove_client_idempotent_witness:
  "remove_client (remove_client three_clients 3) 3 = remove_client three_clients 3
   \<and> users (remove_client three_clients 3) = [(1, ''alice''), (2, ''bob'')]
   \<and> users (remove_client three_clients 7) = users three_clients
   \<and> addresses (remove_client three_clients 7) = addresses three_clients"
  using remove_client_idempotent [of three_clients 3] remove_client_idempotent [of three_clients 7]
  by (simp add: three_clients_def remove_client_def)

section \<open>Stripping\<close>

lemma dropWhile_snoc_keep: "\<not> P x \<Longrightarrow> dropWhile P (ys @ [x]) = dropWhile P ys @ [x]"
  by (induction ys) auto

lemma rev_dropWhile_rev_head:
  assumes "xs \<noteq> []" and "\<not> P (hd xs)"
  shows "\<exists>ys. rev (dropWhile P (rev xs)) = hd xs # ys"
proof -
  obtain x xs' where xs: "xs = x # xs'" using assms(1) by (cases xs) auto
  with assms(2) have "\<not> P x" by simp
  then have "rev (dropWhile P (rev xs)) = x # rev (dropWhile P (rev xs'))"
    using xs by (simp add: dropWhile_snoc_keep)
  then show ?thesis using xs by simp
qed

lemma strip_shape: "strip s = [] \<or> (\<not> is_space (hd (strip s)) \<and> \<not> is_space (last (strip s)))"
proof (cases "dropWhile is_space s = []")
  case True
  have "strip s = []" unfolding strip_def True by simp
  then show ?thesis by simp
next
  case False
  let ?t = "dropWhile is_space s"
  have h: "\<not> is_space (hd ?t)" using False by (simp add: hd_dropWhile)
  from rev_dropWhile_rev_head [of ?t is_space, OF False h]
  obtain ys where ys: "strip s = hd ?t # ys" by (auto simp: strip_def)
  have ne: "dropWhile is_space (rev ?t) \<noteq> []" using ys by (auto simp: strip_def)
  then have "\<not> is_space (hd (dropWhile is_space (rev ?t)))" by (simp add: hd_dropWhile)
  then have "\<not> is_space (last (strip s))"
    using ne by (simp add: strip_def last_rev)
  with ys h show ?thesis by simp
qed

lemma strip_fixed:
  assumes "t \<noteq> []" "\<not> is_space (hd t)" "\<not> is_space (last t)"
  shows "strip t = t"
proof -
  have 1: "dropWhile is_space t = t" using assms by (cases t) auto
  have "rev t \<noteq> []" "\<not> is_space (hd (rev t))" using assms by (simp_all add: hd_rev)
  then have 2: "dropWhile is_space (rev t) = rev t" by (cases "rev t") auto
  show ?thesis by (simp add: strip_def 1 2)
qed

lemma strip_Nil: "strip [] = []"
  by (simp add: strip_def)

lemma strip_idem: "strip (strip s) = strip s"
proof (cases "strip s = []")
  case True
  then show ?thesis by (simp add: strip_Nil)
next
  case False
  with strip_shape [of s] show ?thesis by (intro strip_fixed) simp_all
qed

section \<open>Username negotiation\<close>

lemma get_username_result:
  "get_username s client inputs = (Inr name, s', left) \<Longrightarrow>
     (\<exists>raw. name = strip raw) \<and> name \<noteq> []
     \<and> name \<notin> snd ` set (users s') \<and> users s' = users s"
proof (induction s client inputs rule: get_username.induct)
  case (3 s client raw rest)
  let ?s1 = "send_message s client ''Enter your username:''"
  show ?case
  proof (cases "strip raw \<noteq> [] \<and> strip raw \<notin> snd ` set (users ?s1)")
    case True
    with "3.prems" show ?thesis by (auto simp: Let_def)
  next
    case False
    with "3.prems" have
      "get_username (send_message ?s1 client ''Username already taken or invalid. Try again.'')
         client rest = (Inr name, s', left)"
      by (auto simp: Let_def split: if_splits)
    from "3.IH" [OF refl refl False this] show ?thesis by auto
  qed
qed simp_all

lemma negotiation_run:
  "get_username two_accepted 1 [Recv ''   '', Recv [], Recv '' alice ''] =
     (Inr ''alice'',
      two_accepted\<lparr>outbox :=
        [(1, ''Enter your username:''),
         (1, ''Username already taken or invalid. Try again.''),
         (1, ''Enter your username:''),
         (1, ''Username already taken or invalid. Try again.''),
         (1, ''Enter your username:'')]\<rparr>, [])"
  by (simp add: two_accepted_def strip_def is_space_def send_message_def can_send_def)

text \<open>
  C10. Whatever the client submits, a name that \<open>_get_username\<close> returns is the stripped
  form of a submission, is not empty, has no surrounding whitespace left (stripping it again
  changes nothing, so it is not made of whitespace only) and is borne by no registered
  connection; the registry is not touched by the negotiation. A submission that is empty
  or all whitespace is answered with the rejection notice and the loop prompts again.
\<close>

theorem get_username_never_blank:
  "(get_username s client inputs = (Inr name, s', rest) \<longrightarrow>
      name \<noteq> [] \<and> strip name = name \<and> \<not> list_all is_space name
      \<and> name \<notin> snd ` set (users s') \<and> users s' = users s)
   \<and> (strip raw = [] \<longrightarrow>
        get_username s client (Recv raw # inputs) =
          get_username
            (send_message (send_message s client ''Enter your username:'') client
               ''Username already taken or invalid. Try again.'')
            client inputs)"
proof -
  have a: "name \<noteq> [] \<and> strip name = name \<and> \<not> list_all is_space name
      \<and> name \<notin> snd ` set (users s') \<and> users s' = users s"
    if h: "get_username s client inputs = (Inr name, s', rest)"
  proof -
    from get_username_result [OF h] obtain raw where
      r: "name = strip raw" "name \<noteq> []" "name \<notin> snd ` set (users s')" "users s' = users s"
      by blast
    have "\<not> is_space (hd name)" using strip_shape [of raw] r by auto
    then have "\<not> list_all is_space name" using r(2) by (cases name) auto
    moreover have "strip name = name" unfolding r(1) by (rule strip_idem)
    ultimately show ?thesis using r by blast
  qed
  have b: "get_username s client (Recv raw # inputs) =
          get_username
            (send_message (send_message s client ''Enter your username:'') client
               ''Username already taken or invalid. Try again.'')
            client inputs" if "strip raw = []"
    using that by (simp add: Let_def)
  from a b show ?thesis by blast
qed

theorem get_username_never_blank_witness:
  "get_username two_accepted 1 [Recv ''   '', Recv [], Recv '' alice ''] =
     (Inr ''alice'',
      two_accepted\<lparr>outbox :=
        [(1, ''Enter your username:''),
         (1, ''Username already taken or invalid. Try again.''),
         (1, ''Enter your username:''),
         (1, ''Username already taken or invalid. Try again.''),
         (1, ''Enter your username:'')]\<rparr>, [])
   \<and> strip ''alice'' = ''alice'' \<and> \<not> list_all is_space ''alice''
   \<and> strip ''   '' = []"
proof -
  have blank: "strip ''   '' = []" by (simp add: strip_def is_space_def)
  from get_username_never_blank
         [of two_accepted 1 "[Recv ''   '', Recv [], Recv '' alice '']" "''alice''" _ "[]" "''   ''"]
       negotiation_run blank
  show ?thesis by blast
qed

section \<open>Splitting and looking up\<close>

lemma split_from_nonempty: "cur \<noteq> [] \<Longrightarrow> split_from cur cs \<noteq> []"
  by (induction cs arbitrary: cur) auto

lemma slash_not_space: "\<not> is_space CHR ''/''"
  by (simp add: is_space_def)

lemma split_command_nonempty: "startswith_slash command \<Longrightarrow> split command \<noteq> []"
  by (cases command) (auto simp: startswith_slash_def split_def slash_not_space split_from_nonempty)


lemma find_recipient_Some: "find_recipient us name = Some r \<Longrightarrow> (r, name) \<in> set us"
  by (induction us name rule: find_recipient.induct) (auto split: if_splits)

lemma contains_middle: "contains (a @ b @ c) b"
  by (simp add: contains_def sublist_appendI)

lemma contains_end: "contains (a @ b) b"
  using contains_middle [of a b "[]"] by simp

section \<open>Whispers\<close>





section \<open>Chat lines\<close>

text \<open>
  C1, as amended. A plain chat line (not empty, not starting with a slash) from a
  connection that is still open is broadcast with no exclusion: every registered
  connection whose channel takes the send receives exactly the line
  \<open>[timestamp] username: text\<close>, which contains the sender's name and the text, and the
  sender, being registered, is among the recipients.
\<close>

theorem chat_line_reaches_everyone:
  assumes "message \<noteq> []" and "\<not> startswith_slash message" and "client \<notin> closed s"
  shows "process_message s client username timestamp (Recv message) =
           (True, broadcast s (''['' @ timestamp @ ''] '' @ username @ '': '' @ message) None)
       \<and> outbox (snd (process_message s client username timestamp (Recv message))) =
           outbox s @ map (\<lambda>c. (c, ''['' @ timestamp @ ''] '' @ username @ '': '' @ message))
                        (filter (can_send s) (map fst (users s)))
       \<and> contains (''['' @ timestamp @ ''] '' @ username @ '': '' @ message) username
       \<and> contains (''['' @ timestamp @ ''] '' @ username @ '': '' @ message) message
       \<and> (client \<in> fst ` set (users s) \<and> can_send s client \<longrightarrow>
            (client, ''['' @ timestamp @ ''] '' @ username @ '': '' @ message)
              \<in> set (outbox (snd (process_message s client username timestamp (Recv message)))))"
proof -
  let ?line = "''['' @ timestamp @ ''] '' @ username @ '': '' @ message"
  have run: "process_message s client username timestamp (Recv message) =
      (True, broadcast s ?line None)"
    using assms by (simp add: process_message_def)
  have out: "outbox (broadcast s ?line None) =
      outbox s @ map (\<lambda>c. (c, ?line)) (filter (can_send s) (map fst (users s)))"
    by (simp add: outbox_broadcast)
  have c1: "contains ?line username"
    using contains_middle [of "''['' @ timestamp @ ''] ''" username "'': '' @ message"] by simp
  have c2: "contains ?line message"
    using contains_end [of "''['' @ timestamp @ ''] '' @ username @ '': ''" message] by simp
  have echo: "(client, ?line) \<in> set (outbox (broadcast s ?line None))"
    if "client \<in> fst ` set (users s)" "can_send s client"
    using that unfolding out by auto
  from run out c1 c2 echo show ?thesis by simp
qed

theorem chat_line_reaches_everyone_witness:
  "''hello'' \<noteq> [] \<and> \<not> startswith_slash ''hello'' \<and> 1 \<notin> closed three_clients
   \<and> outbox (snd (process_message three_clients 1 ''alice'' ''12:00:00'' (Recv ''hello''))) =
       [(1, ''[12:00:00] alice: hello''), (2, ''[12:00:00] alice: hello''),
        (3, ''[12:00:00] alice: hello'')]"
proof -
  have h: "''hello'' \<noteq> []" "\<not> startswith_slash ''hello''" "1 \<notin> closed three_clients"
    by (simp_all add: startswith_slash_def three_clients_def)
  from chat_line_reaches_everyone [OF h, of "''alice''" "''12:00:00''"]
  have "outbox (snd (process_message three_clients 1 ''alice'' ''12:00:00'' (Recv ''hello''))) =
      outbox three_clients @
      map (\<lambda>c. (c, ''['' @ ''12:00:00'' @ ''] '' @ ''alice'' @ '': '' @ ''hello''))
        (filter (can_send three_clients) (map fst (users three_clients)))"
    by blast
  then have "outbox (snd (process_message three_clients 1 ''alice'' ''12:00:00'' (Recv ''hello''))) =
       [(1, ''[12:00:00] alice: hello''), (2, ''[12:00:00] alice: hello''),
        (3, ''[12:00:00] alice: hello'')]"
    by (simp add: three_clients_def can_send_def)
  with h show ?thesis by blast
qed

text \<open>
  C1, as stated, fails: with alice, bob and carol registered, alice's line \<open>hello\<close> is sent
  back to alice's own connection.
\<close>

theorem sender_gets_own_chat_line:
  "(1, ''[12:00:00] alice: hello'')
     \<in> set (outbox (snd (process_message three_clients 1 ''alice'' ''12:00:00'' (Recv ''hello''))))"
  by (simp add: process_message_def startswith_slash_def outbox_broadcast three_clients_def
      can_send_def)

section \<open>Dispatch\<close>

text \<open>
  C3, as amended. For a line that starts with a slash the first whitespace-delimited item
  exists and is compared as it stands with the four lower-case command words: \<open>/quit\<close>,
  \<open>/online\<close>, \<open>/help\<close> and \<open>/whisper\<close> run their handlers and every other item gets the
  unknown-command reply, sent to the issuer only. Arguments are compared as they stand
  too: a whisper finds a recipient only under exactly the name given.
\<close>

theorem command_dispatch_exact:
  assumes "startswith_slash command"
  shows "(\<exists>cmd args. split command = cmd # args
           \<and> handle_command s client command username =
               Some (if cmd = ''/quit'' then handle_quit s client username
                     else if cmd = ''/online'' then show_online_users s client
                     else if cmd = ''/help'' then show_help s client
                     else if cmd = ''/whisper'' then handle_whisper s client command username
                     else send_message s client
                            ''Unknown command. Type /help for available commands.''))
       \<and> (find_recipient (users s) name = Some r \<longrightarrow> (r, name) \<in> set (users s))"
proof -
  from split_command_nonempty [OF assms]
  obtain cmd args where sp: "split command = cmd # args" by (cases "split command") auto
  have "handle_command s client command username =
               Some (if cmd = ''/quit'' then handle_quit s client username
                     else if cmd = ''/online'' then show_online_users s client
                     else if cmd = ''/help'' then show_help s client
                     else if cmd = ''/whisper'' then handle_whisper s client command username
                     else send_message s client
                            ''Unknown command. Type /help for available commands.'')"
    by (simp add: handle_command_def sp commands_def run_handler_def)
  with sp find_recipient_Some show ?thesis by blast
qed

theorem command_dispatch_exact_witness:
  "startswith_slash ''/QUIT''
   \<and> handle_command three_clients 1 ''/QUIT'' ''alice'' =
       Some (send_message three_clients 1 ''Unknown command. Type /help for available commands.'')
   \<and> startswith_slash ''/quit now''
   \<and> handle_command three_clients 1 ''/quit now'' ''alice'' =
       Some (handle_quit three_clients 1 ''alice'')"
proof -
  have h: "startswith_slash ''/QUIT''" "startswith_slash ''/quit now''"
    by (simp_all add: startswith_slash_def)
  have sp: "split ''/QUIT'' = [''/QUIT'']" "split ''/quit now'' = [''/quit'', ''now'']"
    by (simp_all add: split_def is_space_def)
  from command_dispatch_exact [OF h(1), of three_clients 1 "''alice''"] sp(1)
  have a: "handle_command three_clients 1 ''/QUIT'' ''alice'' =
       Some (send_message three_clients 1 ''Unknown command. Type /help for available commands.'')"
    by auto
  from command_dispatch_exact [OF h(2), of three_clients 1 "''alice''"] sp(2)
  have b: "handle_command three_clients 1 ''/quit now'' ''alice'' =
       Some (handle_quit three_clients 1 ''alice'')"
    by auto
  from h a b show ?thesis by blast
qed

text \<open>
  C3, as stated, fails: \<open>/QUIT\<close> is answered with the unknown-command reply and leaves
  the sender registered, whereas \<open>/quit\<close> says goodbye, unregisters the sender and
  announces the departure.
\<close>

theorem upper_case_quit_is_unknown:
  "map_option users (handle_command three_clients 1 ''/QUIT'' ''alice'') =
     Some [(1, ''alice''), (2, ''bob''), (3, ''carol'')]
   \<and> map_option outbox (handle_command three_clients 1 ''/QUIT'' ''alice'') =
     Some [(1, ''Unknown command. Type /help for available commands.'')]
   \<and> map_option users (handle_command three_clients 1 ''/quit'' ''alice'') =
     Some [(2, ''bob''), (3, ''carol'')]
   \<and> map_option outbox (handle_command three_clients 1 ''/quit'' ''alice'') =
     Some [(1, ''Goodbye!''), (2, ''alice has left the chat.''), (3, ''alice has left the chat.'')]"
  by (simp add: handle_command_def split_def is_space_def commands_def run_handler_def
      handle_quit_def remove_client_eq outbox_broadcast outbox_send_message
      three_clients_def can_send_def send_message_def)

section \<open>Leaving\<close>

lemma quit_announces_departure:
  "outbox (handle_quit s client username) =
     outbox s @ (if can_send s client then [(client, ''Goodbye!'')] else [])
       @ map (\<lambda>c. (c, username @ '' has left the chat.''))
           (filter (\<lambda>c. c \<notin> dead s \<and> c \<notin> closed s \<and> c \<noteq> client)
              (map fst (AList.delete client (users s))))"
  by (simp add: handle_quit_def outbox_broadcast remove_client_eq outbox_send_message
      can_send_def conj_ac)

text \<open>
  C2. Carol connects while alice and bob are registered, registers, and her peer closes the
  channel (\<open>recv\<close> returns the empty text). The worker returns and carol is unregistered,
  but nothing is sent after the join announcements: neither alice nor bob gets a
  departure notice.
\<close>

theorem peer_close_is_silent:
  "fst (handle_client carol_accepted 3 [Recv ''carol''] [(''12:00:00'', Recv [])]) = Returned
   \<and> users (snd (handle_client carol_accepted 3 [Recv ''carol''] [(''12:00:00'', Recv [])])) =
       [(1, ''alice''), (2, ''bob'')]
   \<and> outbox (snd (handle_client carol_accepted 3 [Recv ''carol''] [(''12:00:00'', Recv [])])) =
       [(3, ''Enter your username:''),
        (3, ''Welcome carol! Type /help for commands.''),
        (1, ''carol has joined the chat!''),
        (2, ''carol has joined the chat!''),
        (3, ''carol has joined the chat!'')]"
  by (simp add: handle_client_def carol_accepted_def three_clients_def strip_def is_space_def
      set_user_def process_message_def remove_client_eq outbox_broadcast outbox_send_message
      can_send_def send_message_def broadcast_def)

lemma quit_is_announced:
  "outbox (snd (handle_client carol_accepted 3 [Recv ''carol''] [(''12:00:00'', Recv ''/quit'')])) =
       [(3, ''Enter your username:''),
        (3, ''Welcome carol! Type /help for commands.''),
        (1, ''carol has joined the chat!''),
        (2, ''carol has joined the chat!''),
        (3, ''carol has joined the chat!''),
        (3, ''Goodbye!''),
        (1, ''carol has left the chat.''),
        (2, ''carol has left the chat.'')]"
  by (simp add: handle_client_def carol_accepted_def three_clients_def strip_def is_space_def
      set_user_def process_message_def remove_client_eq outbox_broadcast outbox_send_message
      can_send_def send_message_def broadcast_def startswith_slash_def handle_command_def
      split_def commands_def run_handler_def handle_quit_def)

section \<open>Malformed whispers\<close>

lemma whisper_without_recipient:
  "split command = [cmd] \<Longrightarrow>
     handle_whisper s client command sender =
       send_message s client ''Usage: /whisper <username> <message>''"
  by (simp add: handle_whisper_def)

text \<open>
  C4. \<open>/whisper bob\<close> from alice, with the message missing: no usage error is sent; bob
  receives a private message with an empty text and alice the confirmation.
\<close>

theorem whisper_without_message_is_delivered:
  "map_option outbox (handle_command three_clients 1 ''/whisper bob'' ''alice'') =
     Some [(2, ''[PM from alice] ''), (1, ''[PM to bob] '')]"
  by (simp add: handle_command_def split_def is_space_def commands_def run_handler_def
      handle_whisper_def Let_def three_clients_def can_send_def send_message_def)

section \<open>Racing registrations\<close>

lemma taken_name_is_rejected:
  "strip raw \<in> snd ` set (users s) \<Longrightarrow>
     get_username s client (Recv raw # rest) =
       get_username
         (send_message (send_message s client ''Enter your username:'') client
            ''Username already taken or invalid. Try again.'')
         client rest"
  by (simp add: Let_def)

text \<open>
  C6. Two workers negotiate the same name. The check of \<open>_get_username\<close> and the insertion
  \<open>self.users[client] = username\<close> of \<open>_handle_client\<close> are separate statements with no lock
  around them, so both checks may run before either insertion: worker 1 checks, worker 2
  checks, worker 1 inserts, worker 2 inserts. Both negotiations return the name and the
  registry ends with two connections called alice.
\<close>

theorem racing_registrations_both_succeed:
  "(case get_username two_accepted 1 [Recv ''alice''] of
      (r1, s1, _) \<Rightarrow>
        (case get_username s1 2 [Recv ''alice''] of
           (r2, s2, _) \<Rightarrow>
              (r1, r2, users (set_user (set_user s2 1 ''alice'') 2 ''alice'')))) =
   (Inr ''alice'', Inr ''alice'', [(1, ''alice''), (2, ''alice'')])"
  by (simp add: two_accepted_def strip_def is_space_def set_user_def send_message_def
      can_send_def)

section \<open>How the client classifies a whisper\<close>

text \<open>
  C9. The two lines the server emits for alice's whisper \<open>/whisper bob hi\<close> are both
  classified \<open>normal\<close> by the client's receive path, the private message that bob
  receives included: the client looks for the text \<open>whispered to you:\<close>, which the
  server's format \<open>[PM from sender] text\<close> does not contain.
\<close>

theorem whisper_is_classified_normal:
  "map (\<lambda>(c, m). (c, m, msg_type m))
     (outbox (handle_whisper three_clients 1 ''/whisper bob hi'' ''alice'')) =
   [(2, ''[PM from alice] hi'', ''normal''), (1, ''[PM to bob] hi'', ''normal'')]"
  by (simp add: handle_whisper_def split_def is_space_def Let_def three_clients_def
      can_send_def send_message_def msg_type_def contains_def sublist_code)

end
